theory Spec2Isabelle
  imports Main "HOL-Library.Multiset"
begin

section \<open>HTTP client: the response interceptor (src/api/axios.config.ts)\<close>

text \<open>
  The rejected handler of \<^verbatim>\<open>axiosInstance.interceptors.response\<close> receives an
  \<^verbatim>\<open>AxiosError<ApiError>\<close> and rejects with a \<^verbatim>\<open>CustomApiError\<close>. An Axios error
  has a \<^verbatim>\<open>message\<close> and an optional \<^verbatim>\<open>response\<close>; of the response the handler reads
  \<^verbatim>\<open>status\<close> and \<^verbatim>\<open>data?.error\<close>. HTTP status codes are integers.
\<close>

record AxiosResponse =
  resp_status :: int
  resp_data_error :: "string option"  \<comment> \<open>\<^verbatim>\<open>data?.error\<close>; \<open>None\<close> when undefined\<close>

record AxiosError =
  ax_message :: string
  ax_response :: "AxiosResponse option"

datatype ErrorType = NETWORK_ERROR | CLIENT_ERROR | SERVER_ERROR | UNKNOWN_ERROR

text \<open>
  The message texts of the source are Spanish sentences with non-ASCII letters; each
  literal of the source is one constructor here, in the order of the source.
\<close>

datatype ErrorMessage =
    CannotConnect string  \<comment> \<open>the network message, followed by \<^verbatim>\<open>error.message\<close>\<close>
  | RequestError          \<comment> \<open>the initial value of \<^verbatim>\<open>errorMessage\<close>\<close>
  | BadRequest            \<comment> \<open>case 400\<close>
  | AccessDenied          \<comment> \<open>case 403\<close>
  | NotFound              \<comment> \<open>case 404\<close>
  | RateLimited           \<comment> \<open>case 429\<close>
  | FromApi string        \<comment> \<open>\<^verbatim>\<open>data.error\<close>, when truthy\<close>
  | ServerFault
  | Unexpected

record CustomApiError =
  message :: ErrorMessage
  status :: "int option"
  errType :: ErrorType
  originalError :: AxiosError

text \<open>The \<^verbatim>\<open>switch (status)\<close> of the 4xx branch.\<close>

definition clientErrorMessage :: "int \<Rightarrow> ErrorMessage" where
  "clientErrorMessage s =
     (if s = 400 then BadRequest
      else if s = 403 then AccessDenied
      else if s = 404 then NotFound
      else if s = 429 then RateLimited
      else RequestError)"

text \<open>\<^verbatim>\<open>data?.error || errorMessage\<close>: an absent or empty string is falsy.\<close>

definition orMessage :: "string option \<Rightarrow> ErrorMessage \<Rightarrow> ErrorMessage" where
  "orMessage d m = (case d of None \<Rightarrow> m | Some s \<Rightarrow> if s = [] then m else FromApi s)"

definition responseError :: "AxiosError \<Rightarrow> CustomApiError" where
  "responseError e =
     (case ax_response e of
        None \<Rightarrow>
          \<lparr>message = CannotConnect (ax_message e), status = None,
           errType = NETWORK_ERROR, originalError = e\<rparr>
      | Some r \<Rightarrow>
          if 400 \<le> resp_status r \<and> resp_status r < 500 then
            \<lparr>message = orMessage (resp_data_error r) (clientErrorMessage (resp_status r)),
             status = Some (resp_status r), errType = CLIENT_ERROR, originalError = e\<rparr>
          else if 500 \<le> resp_status r then
            \<lparr>message = ServerFault, status = Some (resp_status r),
             errType = SERVER_ERROR, originalError = e\<rparr>
          else
            \<lparr>message = Unexpected, status = None,
             errType = UNKNOWN_ERROR, originalError = e\<rparr>)"

text \<open>
  A settled HTTP exchange as Axios hands it to the response interceptors: fulfilled with
  the response, or rejected with an Axios error. The interceptor returns a fulfilled
  response unchanged and rejects with the structured error otherwise.
\<close>

datatype 'a Settled = Fulfilled 'a | Rejected AxiosError

definition responseInterceptor :: "'a Settled \<Rightarrow> CustomApiError + 'a" where
  "responseInterceptor s =
     (case s of Fulfilled r \<Rightarrow> Inr r | Rejected e \<Rightarrow> Inl (responseError e))"

section \<open>Matches service (api/services/matches.service.ts)\<close>

text \<open>
  \<^verbatim>\<open>MatchStatus\<close> of types/football.types.ts. The \<^verbatim>\<open>status\<close> filter of
  \<^verbatim>\<open>GetMatchesOptions\<close> ranges over the same literals without \<^verbatim>\<open>AWARDED\<close>.
\<close>

datatype MatchStatus =
  SCHEDULED | TIMED | IN_PLAY | PAUSED | FINISHED | SUSPENDED | POSTPONED | CANCELLED | AWARDED

text \<open>
  An options object has optional fields only: an absent (undefined) field is \<open>None\<close>.
  The field \<^verbatim>\<open>status\<close> is \<open>matchStatus\<close> and \<^verbatim>\<open>group\<close> is \<open>matchGroup\<close> here.
\<close>

record GetMatchesOptions =
  competitions :: "string option"
  ids :: "string option"
  date :: "string option"
  dateFrom :: "string option"
  dateTo :: "string option"
  matchStatus :: "MatchStatus option"
  season :: "int option"
  matchday :: "int option"
  stage :: "string option"
  matchGroup :: "string option"
  limit :: "int option"

text \<open>The empty object literal \<^verbatim>\<open>{}\<close>.\<close>

definition noOptions :: GetMatchesOptions where
  "noOptions =
     \<lparr>competitions = None, ids = None, date = None, dateFrom = None, dateTo = None,
      matchStatus = None, season = None, matchday = None, stage = None,
      matchGroup = None, limit = None\<rparr>"

text \<open>
  \<^verbatim>\<open>UnfoldOptions\<close>: the fields \<^verbatim>\<open>lineups\<close>, \<^verbatim>\<open>bookings\<close>, \<^verbatim>\<open>substitutions\<close> and
  \<^verbatim>\<open>goals\<close>, named after the headers they become.
\<close>

record UnfoldOptions =
  unfoldLineups :: "bool option"
  unfoldBookings :: "bool option"
  unfoldSubs :: "bool option"
  unfoldGoals :: "bool option"

definition noUnfold :: UnfoldOptions where
  "noUnfold =
     \<lparr>unfoldLineups = None, unfoldBookings = None, unfoldSubs = None, unfoldGoals = None\<rparr>"

text \<open>
  A request as \<^verbatim>\<open>axiosInstance.get(url, {params, headers})\<close> receives it. The URL is a
  template literal: literal pieces and interpolated numbers. \<open>params\<close> is \<open>None\<close> when
  the call passes no \<^verbatim>\<open>params\<close>. The headers object is built by assignments, kept in
  insertion order.
\<close>

datatype Segment = Lit string | Num int

record Request =
  url :: "Segment list"
  params :: "GetMatchesOptions option"
  headers :: "(string \<times> string) list"

text \<open>\<^verbatim>\<open>String(b)\<close> of a boolean.\<close>

definition String_of_bool :: "bool \<Rightarrow> string" where
  "String_of_bool b = (if b then ''true'' else ''false'')"

text \<open>One \<^verbatim>\<open>if (unfoldOptions.f !== undefined) headers[name] = String(unfoldOptions.f)\<close>.\<close>

definition setHeader :: "string \<Rightarrow> bool option \<Rightarrow> (string \<times> string) list \<Rightarrow> (string \<times> string) list" where
  "setHeader name f hs = (case f of None \<Rightarrow> hs | Some b \<Rightarrow> hs @ [(name, String_of_bool b)])"

text \<open>The four assignments, the same in \<^verbatim>\<open>getMatches\<close>, \<^verbatim>\<open>getMatchById\<close>, \<^verbatim>\<open>getHead2Head\<close>.\<close>

definition unfoldHeaders :: "UnfoldOptions \<Rightarrow> (string \<times> string) list" where
  "unfoldHeaders u =
     setHeader ''X-Unfold-Goals'' (unfoldGoals u)
       (setHeader ''X-Unfold-Subs'' (unfoldSubs u)
         (setHeader ''X-Unfold-Bookings'' (unfoldBookings u)
           (setHeader ''X-Unfold-Lineups'' (unfoldLineups u) [])))"

text \<open>
  The upstream API is outside the program: \<open>up n req\<close> is how the exchange of request
  \<open>req\<close> settles when \<open>n\<close> requests were sent before it. The state threaded through
  the asynchronous calls is the list of requests sent so far. \<open>axiosGet\<close> sends one
  request and passes the settled exchange through the response interceptor; the value of
  a fulfilled exchange is \<^verbatim>\<open>response.data\<close>.
\<close>

type_synonym 'a Upstream = "nat \<Rightarrow> Request \<Rightarrow> 'a Settled"

definition axiosGet ::
  "'a Upstream \<Rightarrow> Request \<Rightarrow> Request list \<Rightarrow> (CustomApiError + 'a) \<times> Request list" where
  "axiosGet up req sent = (responseInterceptor (up (length sent) req), sent @ [req])"

definition getMatches ::
  "'a Upstream \<Rightarrow> GetMatchesOptions \<Rightarrow> UnfoldOptions \<Rightarrow> Request list
     \<Rightarrow> (CustomApiError + 'a) \<times> Request list" where
  "getMatches up options unfoldOptions =
     axiosGet up
       \<lparr>url = [Lit ''/matches''], params = Some options, headers = unfoldHeaders unfoldOptions\<rparr>"

definition getTodayMatches ::
  "'a Upstream \<Rightarrow> UnfoldOptions \<Rightarrow> Request list \<Rightarrow> (CustomApiError + 'a) \<times> Request list" where
  "getTodayMatches up unfoldOptions = getMatches up noOptions unfoldOptions"

definition getMatchById ::
  "'a Upstream \<Rightarrow> int \<Rightarrow> UnfoldOptions \<Rightarrow> Request list
     \<Rightarrow> (CustomApiError + 'a) \<times> Request list" where
  "getMatchById up matchId unfoldOptions =
     axiosGet up
       \<lparr>url = [Lit ''/matches/'', Num matchId], params = None,
        headers = unfoldHeaders unfoldOptions\<rparr>"

definition getHead2Head ::
  "'a Upstream \<Rightarrow> int \<Rightarrow> int \<Rightarrow> UnfoldOptions \<Rightarrow> Request list
     \<Rightarrow> (CustomApiError + 'a) \<times> Request list" where
  "getHead2Head up matchId lim unfoldOptions =
     axiosGet up
       \<lparr>url = [Lit ''/matches/'', Num matchId, Lit ''/head2head''],
        params = Some (noOptions\<lparr>limit := Some lim\<rparr>),
        headers = unfoldHeaders unfoldOptions\<rparr>"

definition getLiveMatches ::
  "'a Upstream \<Rightarrow> UnfoldOptions \<Rightarrow> Request list \<Rightarrow> (CustomApiError + 'a) \<times> Request list" where
  "getLiveMatches up unfoldOptions =
     getMatches up (noOptions\<lparr>matchStatus := Some IN_PLAY\<rparr>) unfoldOptions"


text \<open>The match card (components/matches/MatchCard.tsx) shows a match as live when\<close>

definition isLive :: "MatchStatus \<Rightarrow> bool" where
  "isLive s = (s = IN_PLAY \<or> s = PAUSED)"

section \<open>Queries: the options the hooks pass to \<^verbatim>\<open>useQuery\<close>\<close>

text \<open>
  A query function either resolves with data or fails: with the structured error of the
  HTTP client, or with a JavaScript \<^verbatim>\<open>Error\<close> thrown by the function itself. It runs
  in a world \<open>'w\<close> that it may change (for the match hooks: the requests sent so far).
\<close>

datatype QueryError = ApiRejection CustomApiError | JsError string

type_synonym ('w, 'a) QueryFn = "'w \<Rightarrow> (QueryError + 'a) \<times> 'w"

text \<open>A service call awaited inside a query function: its rejection is the query's failure.\<close>

definition awaitService :: "(CustomApiError + 'a) \<times> 'w \<Rightarrow> (QueryError + 'a) \<times> 'w" where
  "awaitService r = (case r of (Inl e, w) \<Rightarrow> (Inl (ApiRejection e), w) | (Inr v, w) \<Rightarrow> (Inr v, w))"

text \<open>
  The elements of a query key: strings, numbers, an options object and an
  unfold-options object. Two keys are the same cache key when they serialize alike, and
  as an element of the key array \<^verbatim>\<open>undefined\<close> serializes as \<^verbatim>\<open>null\<close> does: both are
  \<open>KNull\<close>.
\<close>

datatype 'o KeyPart =
  KString string | KNumber int | KNull | KOptions 'o | KUnfold UnfoldOptions

text \<open>
  The object literal passed to \<^verbatim>\<open>useQuery\<close>. A property the literal does not set is
  \<open>None\<close>; \<^verbatim>\<open>queryKey\<close>, \<^verbatim>\<open>queryFn\<close> and \<^verbatim>\<open>enabled\<close> are set by every hook modelled
  here. Times are milliseconds.
\<close>

record ('o, 'w, 'a) UseQueryOptions =
  queryKey :: "'o KeyPart list"
  queryFn :: "('w, 'a) QueryFn"
  staleTime :: "nat option"
  gcTime :: "nat option"
  enabled :: bool
  retry :: "nat option"
  retryDelay :: "(nat \<Rightarrow> nat) option"
  refetchOnWindowFocus :: "bool option"
  refetchInterval :: "nat option"

text \<open>
  The defaults of the \<^verbatim>\<open>QueryClient\<close> created in App.tsx, which apply to a property a
  hook leaves unset: \<^verbatim>\<open>retry: 2\<close>, \<^verbatim>\<open>staleTime: 2 * 60 * 1000\<close>, \<^verbatim>\<open>gcTime: 5 * 60 * 1000\<close>.
  App.tsx sets no \<^verbatim>\<open>retryDelay\<close>; the query library's own default is the same
  formula the hooks write out.
\<close>

definition clientRetry :: nat where
  "clientRetry = 2"

definition clientStaleTime :: nat where
  "clientStaleTime = 2 * 60 * 1000"

definition clientGcTime :: nat where
  "clientGcTime = 5 * 60 * 1000"

definition libraryRetryDelay :: "nat \<Rightarrow> nat" where
  "libraryRetryDelay failureCount = min (1000 * 2 ^ failureCount) 30000"

definition retryOf :: "('o, 'w, 'a) UseQueryOptions \<Rightarrow> nat" where
  "retryOf opts = (case retry opts of Some n \<Rightarrow> n | None \<Rightarrow> clientRetry)"

definition retryDelayOf :: "('o, 'w, 'a) UseQueryOptions \<Rightarrow> nat \<Rightarrow> nat" where
  "retryDelayOf opts = (case retryDelay opts of Some d \<Rightarrow> d | None \<Rightarrow> libraryRetryDelay)"

subsection \<open>What the query library does with the options\<close>

text \<open>
  The hooks only configure the library (@tanstack/react-query); retrying and the
  \<^verbatim>\<open>enabled\<close> switch are the library's. Its rules, as far as the hooks rely on them:

  \<^item> a numeric \<^verbatim>\<open>retry\<close> of \<open>n\<close>: after a failed attempt, with \<open>failureCount\<close> failures
    before it, the function is run again when \<open>failureCount < n\<close>, after waiting
    \<^verbatim>\<open>retryDelay(failureCount)\<close>; otherwise the query fails with the last error. The
    error is not looked at.
  \<^item> a query that is not \<^verbatim>\<open>enabled\<close> is not fetched when the hook mounts: its result has
    no data and no error. \<^verbatim>\<open>refetch()\<close> runs the query function whatever \<^verbatim>\<open>enabled\<close> is.

  \<open>retryer\<close> returns the final outcome, the delays waited between attempts and the
  world after the last attempt.
\<close>

function retryer ::
  "nat \<Rightarrow> (nat \<Rightarrow> nat) \<Rightarrow> ('w, 'a) QueryFn \<Rightarrow> nat \<Rightarrow> nat list \<Rightarrow> 'w
     \<Rightarrow> (QueryError + 'a) \<times> nat list \<times> 'w" where
  "retryer n delay fn failureCount waited w =
     (case fn w of
        (Inr v, w') \<Rightarrow> (Inr v, waited, w')
      | (Inl e, w') \<Rightarrow>
          if failureCount < n
          then retryer n delay fn (Suc failureCount) (waited @ [delay failureCount]) w'
          else (Inl e, waited, w'))"
  by pat_completeness auto
termination
  by (relation "measure (\<lambda>(n, delay, fn, failureCount, waited, w). n - failureCount)") auto

declare retryer.simps [simp del]

record 'a QueryResult =
  data :: "'a option"
  isLoading :: bool
  error :: "QueryError option"

definition idleResult :: "'a QueryResult" where
  "idleResult = \<lparr>data = None, isLoading = False, error = None\<rparr>"

definition settled :: "QueryError + 'a \<Rightarrow> 'a QueryResult" where
  "settled r =
     (case r of
        Inr v \<Rightarrow> \<lparr>data = Some v, isLoading = False, error = None\<rparr>
      | Inl e \<Rightarrow> \<lparr>data = None, isLoading = False, error = Some e\<rparr>)"

definition fetchQuery ::
  "('o, 'w, 'a) UseQueryOptions \<Rightarrow> 'w \<Rightarrow> (QueryError + 'a) \<times> nat list \<times> 'w" where
  "fetchQuery opts w = retryer (retryOf opts) (retryDelayOf opts) (queryFn opts) 0 [] w"

text \<open>
  Mounting a hook on an empty cache and waiting until the query settles: the result the
  caller sees, the delays waited and the world afterwards.
\<close>

definition useQuery ::
  "('o, 'w, 'a) UseQueryOptions \<Rightarrow> 'w \<Rightarrow> 'a QueryResult \<times> nat list \<times> 'w" where
  "useQuery opts w =
     (if enabled opts
      then (case fetchQuery opts w of (r, waited, w') \<Rightarrow> (settled r, waited, w'))
      else (idleResult, [], w))"

definition refetch ::
  "('o, 'w, 'a) UseQueryOptions \<Rightarrow> 'w \<Rightarrow> 'a QueryResult \<times> nat list \<times> 'w" where
  "refetch opts w = (case fetchQuery opts w of (r, waited, w') \<Rightarrow> (settled r, waited, w'))"


section \<open>Match hooks (hooks/useMatches.ts)\<close>

definition matches_CACHE_TIME :: nat where
  "matches_CACHE_TIME = 5 * 60 * 1000"

definition matches_STALE_TIME :: nat where
  "matches_STALE_TIME = 2 * 60 * 1000"

text \<open>The \<^verbatim>\<open>retryDelay\<close> arrow function the hooks write out.\<close>

definition hookRetryDelay :: "nat \<Rightarrow> nat" where
  "hookRetryDelay attemptIndex = min (1000 * 2 ^ attemptIndex) 30000"

text \<open>
  \<^verbatim>\<open>matchId: number | null\<close> is an \<open>int option\<close>: match ids are integers.
  \<^verbatim>\<open>!!matchId\<close> is false for \<^verbatim>\<open>null\<close> and for 0.
\<close>

definition truthyId :: "int option \<Rightarrow> bool" where
  "truthyId matchId = (case matchId of None \<Rightarrow> False | Some n \<Rightarrow> n \<noteq> 0)"

definition keyOfId :: "int option \<Rightarrow> 'o KeyPart" where
  "keyOfId matchId = (case matchId of None \<Rightarrow> KNull | Some n \<Rightarrow> KNumber n)"


text \<open>
  The parameters have defaults in the source (\<^verbatim>\<open>options = {}\<close>, \<^verbatim>\<open>unfoldOptions = {}\<close>,
  \<^verbatim>\<open>enabled = true\<close>, and \<^verbatim>\<open>{ goals: true }\<close> for the live matches); here every
  argument is passed.
\<close>

definition useMatches ::
  "'a Upstream \<Rightarrow> GetMatchesOptions \<Rightarrow> UnfoldOptions \<Rightarrow> bool
     \<Rightarrow> (GetMatchesOptions, Request list, 'a) UseQueryOptions" where
  "useMatches up options unfoldOptions en =
     \<lparr>queryKey = [KString ''matches'', KOptions options, KUnfold unfoldOptions],
      queryFn = (\<lambda>w. awaitService (getMatches up options unfoldOptions w)),
      staleTime = Some matches_STALE_TIME,
      gcTime = Some matches_CACHE_TIME,
      enabled = en,
      retry = Some 2,
      retryDelay = Some hookRetryDelay,
      refetchOnWindowFocus = None,
      refetchInterval = None\<rparr>"

definition useTodayMatches ::
  "'a Upstream \<Rightarrow> UnfoldOptions \<Rightarrow> bool
     \<Rightarrow> (GetMatchesOptions, Request list, 'a) UseQueryOptions" where
  "useTodayMatches up unfoldOptions en =
     \<lparr>queryKey = [KString ''matches'', KString ''today'', KUnfold unfoldOptions],
      queryFn = (\<lambda>w. awaitService (getTodayMatches up unfoldOptions w)),
      staleTime = Some matches_STALE_TIME,
      gcTime = Some matches_CACHE_TIME,
      enabled = en,
      retry = Some 2,
      retryDelay = Some hookRetryDelay,
      refetchOnWindowFocus = Some True,
      refetchInterval = Some 60000\<rparr>"

definition useMatchById ::
  "'a Upstream \<Rightarrow> int option \<Rightarrow> UnfoldOptions \<Rightarrow> bool
     \<Rightarrow> (GetMatchesOptions, Request list, 'a) UseQueryOptions" where
  "useMatchById up matchId unfoldOptions en =
     \<lparr>queryKey = [KString ''match'', keyOfId matchId, KUnfold unfoldOptions],
      queryFn = (\<lambda>w.
        case matchId of
          None \<Rightarrow> (Inl (JsError ''Match ID is required''), w)
        | Some n \<Rightarrow>
            if n = 0 then (Inl (JsError ''Match ID is required''), w)
            else awaitService (getMatchById up n unfoldOptions w)),
      staleTime = Some matches_STALE_TIME,
      gcTime = Some matches_CACHE_TIME,
      enabled = (en \<and> truthyId matchId),
      retry = Some 2,
      retryDelay = Some hookRetryDelay,
      refetchOnWindowFocus = None,
      refetchInterval = None\<rparr>"

definition useLiveMatches ::
  "'a Upstream \<Rightarrow> UnfoldOptions \<Rightarrow> bool
     \<Rightarrow> (GetMatchesOptions, Request list, 'a) UseQueryOptions" where
  "useLiveMatches up unfoldOptions en =
     \<lparr>queryKey = [KString ''matches'', KString ''live'', KUnfold unfoldOptions],
      queryFn = (\<lambda>w. awaitService (getLiveMatches up unfoldOptions w)),
      staleTime = Some 30000,
      gcTime = Some matches_CACHE_TIME,
      enabled = en,
      retry = Some 2,
      retryDelay = Some hookRetryDelay,
      refetchOnWindowFocus = Some True,
      refetchInterval = Some 30000\<rparr>"

definition useHead2Head ::
  "'a Upstream \<Rightarrow> int option \<Rightarrow> int \<Rightarrow> UnfoldOptions \<Rightarrow> bool
     \<Rightarrow> (GetMatchesOptions, Request list, 'a) UseQueryOptions" where
  "useHead2Head up matchId lim unfoldOptions en =
     \<lparr>queryKey =
        [KString ''match'', keyOfId matchId, KString ''head2head'', KNumber lim,
         KUnfold unfoldOptions],
      queryFn = (\<lambda>w.
        case matchId of
          None \<Rightarrow> (Inl (JsError ''Match ID is required''), w)
        | Some n \<Rightarrow>
            if n = 0 then (Inl (JsError ''Match ID is required''), w)
            else awaitService (getHead2Head up n lim unfoldOptions w)),
      staleTime = Some matches_CACHE_TIME,
      gcTime = Some (matches_CACHE_TIME * 2),
      enabled = (en \<and> truthyId matchId),
      retry = Some 1,
      retryDelay = None,
      refetchOnWindowFocus = None,
      refetchInterval = None\<rparr>"


section \<open>Competition hooks (hooks/useCompetitions.ts, hooks/useCompetitionDetail.ts)\<close>

text \<open>Both modules declare the same two constants.\<close>

definition competitions_CACHE_TIME :: nat where
  "competitions_CACHE_TIME = 10 * 60 * 1000"

definition competitions_STALE_TIME :: nat where
  "competitions_STALE_TIME = 5 * 60 * 1000"

text \<open>
  The query functions of these hooks call \<^verbatim>\<open>CompetitionsService\<close>. What the service
  sends is not needed below, so a call is a value naming the method and its arguments,
  and the service is a parameter \<open>svc\<close> that runs a call in the world. The code
  argument is passed as \<^verbatim>\<open>code!\<close>, that is unchecked: it can be \<^verbatim>\<open>null\<close>.
\<close>

datatype 'o CompetitionsCall =
    GetCompetitions 'o
  | GetFullCompetition "string option"
  | GetStandings "string option" "'o option"
  | GetScorers "string option" "'o option"
  | GetTeams "string option" "'o option"
  | GetCompetitionMatches "string option" "'o option"

type_synonym ('o, 'w, 'a) CompetitionsService =
  "'o CompetitionsCall \<Rightarrow> 'w \<Rightarrow> (CustomApiError + 'a) \<times> 'w"




definition useCompetitions ::
  "('o, 'w, 'a) CompetitionsService \<Rightarrow> 'o \<Rightarrow> bool \<Rightarrow> ('o, 'w, 'a) UseQueryOptions" where
  "useCompetitions svc options en =
     \<lparr>queryKey = [KString ''competitions'', KOptions options],
      queryFn = (\<lambda>w. awaitService (svc (GetCompetitions options) w)),
      staleTime = Some competitions_STALE_TIME,
      gcTime = Some competitions_CACHE_TIME,
      enabled = en,
      retry = None,
      retryDelay = None,
      refetchOnWindowFocus = None,
      refetchInterval = None\<rparr>"






section \<open>Competition page (pages/CompetitionDetail.tsx)\<close>









section \<open>Match timeline (components/matches/MatchTimeline.tsx)\<close>

text \<open>
  Of a goal, a booking and a substitution the merge reads the minute, and the
  \<^verbatim>\<open>injuryTime: number | null\<close> of a goal; one more field of each is kept to tell
  events apart. The three \<^verbatim>\<open>minute\<close> fields have a name each here. Of a match the merge
  reads the three optional lists.
\<close>

record Goal =
  goalMinute :: int
  injuryTime :: "int option"
  scorer :: string

datatype CardType = YELLOW | YELLOW_RED | RED

record Booking =
  bookingMinute :: int
  player :: string
  bookingCard :: CardType

record Substitution =
  subMinute :: int
  playerOut :: string
  playerIn :: string

record Match =
  goals :: "Goal list option"
  bookings :: "Booking list option"
  substitutions :: "Substitution list option"

datatype EventData = GoalData Goal | BookingData Booking | SubstitutionData Substitution

datatype EventType = GoalEvent | BookingEvent | SubstitutionEvent

record TimelineEvent =
  minute :: int
  eventType :: EventType
  eventData :: EventData

text \<open>\<^verbatim>\<open>goal.injuryTime || 0\<close>: \<^verbatim>\<open>null\<close> (and 0) give 0.\<close>

definition injuryTimeOr0 :: "Goal \<Rightarrow> int" where
  "injuryTimeOr0 goal = (case injuryTime goal of None \<Rightarrow> 0 | Some t \<Rightarrow> t)"

definition goalEvent :: "Goal \<Rightarrow> TimelineEvent" where
  "goalEvent goal =
     \<lparr>minute = goalMinute goal + injuryTimeOr0 goal, eventType = GoalEvent,
      eventData = GoalData goal\<rparr>"

definition bookingEvent :: "Booking \<Rightarrow> TimelineEvent" where
  "bookingEvent booking =
     \<lparr>minute = bookingMinute booking, eventType = BookingEvent,
      eventData = BookingData booking\<rparr>"

definition substitutionEvent :: "Substitution \<Rightarrow> TimelineEvent" where
  "substitutionEvent sub =
     \<lparr>minute = subMinute sub, eventType = SubstitutionEvent,
      eventData = SubstitutionData sub\<rparr>"

text \<open>\<^verbatim>\<open>list?.forEach(x => events.push(f x))\<close>: nothing is pushed for an absent list.\<close>

definition pushAll :: "('x \<Rightarrow> TimelineEvent) \<Rightarrow> 'x list option \<Rightarrow> TimelineEvent list" where
  "pushAll f list = (case list of None \<Rightarrow> [] | Some xs \<Rightarrow> map f xs)"

text \<open>The array \<^verbatim>\<open>events\<close> after the three loops, before it is sorted.\<close>

definition pushedEvents :: "'z Match_scheme \<Rightarrow> TimelineEvent list" where
  "pushedEvents match =
     pushAll goalEvent (goals match) @ pushAll bookingEvent (bookings match)
       @ pushAll substitutionEvent (substitutions match)"

text \<open>
  \<^verbatim>\<open>events.sort((a, b) => a.minute - b.minute)\<close>: ascending by \<^verbatim>\<open>minute\<close>, and stable,
  as \<^verbatim>\<open>Array.prototype.sort\<close> is. \<open>sort_key\<close> is the stable sort by a key.
\<close>

definition getTimelineEvents :: "'z Match_scheme \<Rightarrow> TimelineEvent list" where
  "getTimelineEvents match = sort_key minute (pushedEvents match)"

section \<open>Upstreams used in the examples\<close>


text \<open>An upstream that fulfils every exchange with the same body.\<close>

definition answeringUpstream :: "'a \<Rightarrow> 'a Upstream" where
  "answeringUpstream body = (\<lambda>n req. Fulfilled body)"



section \<open>Properties of the HTTP client\<close>

lemma errType_network: "(errType (responseError e) = NETWORK_ERROR) = (ax_response e = None)"
  by (simp add: responseError_def split: option.split)

lemma errType_client:
  "(errType (responseError e) = CLIENT_ERROR) =
     (\<exists>r. ax_response e = Some r \<and> 400 \<le> resp_status r \<and> resp_status r < 500)"
  by (simp add: responseError_def split: option.split)

lemma errType_server:
  "(errType (responseError e) = SERVER_ERROR) =
     (\<exists>r. ax_response e = Some r \<and> 500 \<le> resp_status r)"
  by (auto simp add: responseError_def split: option.split)

lemma errType_unknown:
  "(errType (responseError e) = UNKNOWN_ERROR) =
     (\<exists>r. ax_response e = Some r \<and> resp_status r < 400)"
  by (auto simp add: responseError_def split: option.split)

text \<open>
  C1. Every failed request is rejected with one structured error: the interceptor maps
  a rejected exchange to \<open>Inl\<close> of a single \<open>CustomApiError\<close>. Its type is
  \<open>NETWORK_ERROR\<close> exactly when there is no response, \<open>CLIENT_ERROR\<close> exactly when the
  response status is in [400, 500), \<open>SERVER_ERROR\<close> exactly when the status is at least
  500 and \<open>UNKNOWN_ERROR\<close> exactly in the remaining case (a response with a status below
  400); exactly the client and server errors carry the status of the response. The four
  conditions on the right are exhaustive and exclude each other, so the classification
  is total and the four kinds are mutually exclusive.
\<close>

theorem C1_error_classification:
  "responseInterceptor (Rejected e :: 'a Settled) = Inl (responseError e)
   \<and> (errType (responseError e) = NETWORK_ERROR) = (ax_response e = None)
   \<and> (errType (responseError e) = CLIENT_ERROR) =
       (\<exists>r. ax_response e = Some r \<and> 400 \<le> resp_status r \<and> resp_status r < 500)
   \<and> (errType (responseError e) = SERVER_ERROR) =
       (\<exists>r. ax_response e = Some r \<and> 500 \<le> resp_status r)
   \<and> (errType (responseError e) = UNKNOWN_ERROR) =
       (\<exists>r. ax_response e = Some r \<and> resp_status r < 400)
   \<and> (errType (responseError e) = CLIENT_ERROR \<or> errType (responseError e) = SERVER_ERROR) =
       (\<exists>r. ax_response e = Some r \<and> status (responseError e) = Some (resp_status r))"
proof -
  have carried:
    "(errType (responseError e) = CLIENT_ERROR \<or> errType (responseError e) = SERVER_ERROR) =
       (\<exists>r. ax_response e = Some r \<and> status (responseError e) = Some (resp_status r))"
    by (auto simp add: responseError_def split: option.split)
  show ?thesis
    using errType_network [of e] errType_client [of e] errType_server [of e]
      errType_unknown [of e] carried
    by (simp add: responseInterceptor_def)
qed

theorem C1_error_classification_witness:
  "errType (responseError \<lparr>ax_message = ''timeout of 10000ms exceeded'', ax_response = None\<rparr>)
     = NETWORK_ERROR
   \<and> errType (responseError \<lparr>ax_message = ''Request failed with status code 429'',
        ax_response = Some \<lparr>resp_status = 429, resp_data_error = None\<rparr>\<rparr>) = CLIENT_ERROR
   \<and> status (responseError \<lparr>ax_message = ''Request failed with status code 429'',
        ax_response = Some \<lparr>resp_status = 429, resp_data_error = None\<rparr>\<rparr>) = Some 429
   \<and> errType (responseError \<lparr>ax_message = ''Request failed with status code 503'',
        ax_response = Some \<lparr>resp_status = 503, resp_data_error = None\<rparr>\<rparr>) = SERVER_ERROR
   \<and> errType (responseError \<lparr>ax_message = ''Request failed with status code 304'',
        ax_response = Some \<lparr>resp_status = 304, resp_data_error = None\<rparr>\<rparr>) = UNKNOWN_ERROR"
proof -
  let ?n = "\<lparr>ax_message = ''timeout of 10000ms exceeded'', ax_response = None\<rparr>"
  let ?c = "\<lparr>ax_message = ''Request failed with status code 429'',
        ax_response = Some \<lparr>resp_status = 429, resp_data_error = None\<rparr>\<rparr>"
  let ?s = "\<lparr>ax_message = ''Request failed with status code 503'',
        ax_response = Some \<lparr>resp_status = 503, resp_data_error = None\<rparr>\<rparr>"
  let ?u = "\<lparr>ax_message = ''Request failed with status code 304'',
        ax_response = Some \<lparr>resp_status = 304, resp_data_error = None\<rparr>\<rparr>"
  have n: "errType (responseError ?n) = NETWORK_ERROR"
    using C1_error_classification [of ?n, THEN conjunct2] by simp
  have c: "errType (responseError ?c) = CLIENT_ERROR"
    using C1_error_classification [of ?c, THEN conjunct2] by simp
  have s: "errType (responseError ?s) = SERVER_ERROR"
    using C1_error_classification [of ?s, THEN conjunct2] by simp
  have u: "errType (responseError ?u) = UNKNOWN_ERROR"
    using C1_error_classification [of ?u, THEN conjunct2] by simp
  have st: "status (responseError ?c) = Some 429"
    using C1_error_classification [of ?c, THEN conjunct2] c by simp
  show ?thesis using n c s u st by simp
qed

section \<open>Properties of retrying (hooks/useMatches.ts)\<close>




















section \<open>Properties of the match hooks and the matches service\<close>

lemma refetch_thrown:
  "\<forall>w. fn w = (Inl e, w) \<Longrightarrow> retryer n d fn k ws w = (Inl e, ws @ map d [k..<n], w)"
proof (induction n d fn k ws w rule: retryer.induct)
  case (1 n delay fn failureCount waited w)
  from "1.prems" have fw: "fn w = (Inl e, w)" by blast
  show ?case
  proof (cases "failureCount < n")
    case True
    from "1.IH" [OF fw [symmetric] refl True "1.prems"]
    show ?thesis using fw True
      by (simp add: retryer.simps [of n delay fn failureCount waited w] upt_conv_Cons)
  next
    case False
    with fw show ?thesis
      by (simp add: retryer.simps [of n delay fn failureCount waited w])
  qed
qed

text \<open>
  C6, as the code has it. With a missing match id (\<^verbatim>\<open>null\<close>, or 0) the query of
  \<^verbatim>\<open>useMatchById\<close> is disabled: it does not run, no request is sent, and the caller sees
  neither data nor an error. The validation error is what the query function gives when
  it is run all the same, as \<^verbatim>\<open>refetch()\<close> does: then the caller is reported
  "Match ID is required" (after the two retries), still without any request.
\<close>

theorem C6_missing_match_id:
  "useQuery (useMatchById up None u en) w = (idleResult, [], w)
   \<and> useQuery (useMatchById up (Some 0) u en) w = (idleResult, [], w)
   \<and> data (fst (useQuery (useMatchById up None u en) w)) = None
   \<and> error (fst (useQuery (useMatchById up None u en) w)) = None
   \<and> snd (snd (useQuery (useMatchById up None u en) w)) = w
   \<and> queryFn (useMatchById up None u en) w = (Inl (JsError ''Match ID is required''), w)
   \<and> refetch (useMatchById up None u en) w =
       (\<lparr>data = None, isLoading = False, error = Some (JsError ''Match ID is required'')\<rparr>,
        [1000, 2000], w)"
proof -
  have off: "\<not> enabled (useMatchById up None u en)" "\<not> enabled (useMatchById up (Some 0) u en)"
    by (simp_all add: useMatchById_def truthyId_def)
  have thrown:
    "\<forall>w. queryFn (useMatchById up None u en) w = (Inl (JsError ''Match ID is required''), w)"
    by (simp add: useMatchById_def)
  have "fetchQuery (useMatchById up None u en) w =
      (Inl (JsError ''Match ID is required''), [1000, 2000], w)"
    unfolding fetchQuery_def
    using refetch_thrown [OF thrown, of "retryOf (useMatchById up None u en)"
        "retryDelayOf (useMatchById up None u en)" 0 "[]" w]
    by (simp add: useMatchById_def retryOf_def retryDelayOf_def hookRetryDelay_def upt_conv_Cons)
  then have re: "refetch (useMatchById up None u en) w =
      (\<lparr>data = None, isLoading = False, error = Some (JsError ''Match ID is required'')\<rparr>,
       [1000, 2000], w)"
    by (simp add: refetch_def settled_def)
  show ?thesis
    using off thrown re by (simp add: useQuery_def idleResult_def)
qed

text \<open>
  As stated, C6 fails in its last part: the caller of the hook with a missing id is not
  reported the validation failure; the result has no error at all.
\<close>

theorem C6_no_validation_failure_reported:
  "error (fst (useQuery (useMatchById (answeringUpstream ()) None noUnfold True) [])) = None
   \<and> error (fst (useQuery (useMatchById (answeringUpstream ()) None noUnfold True) []))
       \<noteq> Some (JsError ''Match ID is required'')"
  by (simp add: useQuery_def useMatchById_def truthyId_def idleResult_def)

text \<open>
  C7. The query key of each match hook that takes unfold options contains them, next to
  the resource kind and the other parameters: two calls have the same key exactly when
  all their parameters, the unfold options included, are the same. So two calls that
  differ in an unfold flag have different keys, and a cache indexed by the key holds an
  entry for each.
\<close>

theorem C7_cache_key_has_unfold_flags:
  assumes "u \<noteq> u'"
  shows
  "queryKey (useMatches up options u en) \<noteq> queryKey (useMatches up options u' en)
   \<and> queryKey (useTodayMatches up u en) \<noteq> queryKey (useTodayMatches up u' en)
   \<and> queryKey (useMatchById up matchId u en) \<noteq> queryKey (useMatchById up matchId u' en)
   \<and> queryKey (useLiveMatches up u en) \<noteq> queryKey (useLiveMatches up u' en)
   \<and> queryKey (useHead2Head up matchId lim u en) \<noteq> queryKey (useHead2Head up matchId lim u' en)
   \<and> (queryKey (useMatches up options u en) = queryKey (useMatches up2 options2 u2 en2))
        = (options = options2 \<and> u = u2)
   \<and> (queryKey (useMatchById up matchId u en) = queryKey (useMatchById up2 matchId2 u2 en2))
        = (matchId = matchId2 \<and> u = u2)
   \<and> (queryKey (useHead2Head up matchId lim u en) = queryKey (useHead2Head up2 matchId2 lim2 u2 en2))
        = (matchId = matchId2 \<and> lim = lim2 \<and> u = u2)
   \<and> (cache(queryKey (useMatches up options u en) \<mapsto> v,
             queryKey (useMatches up options u' en) \<mapsto> v'))
        (queryKey (useMatches up options u en)) = Some v
   \<and> (cache(queryKey (useMatches up options u en) \<mapsto> v,
             queryKey (useMatches up options u' en) \<mapsto> v'))
        (queryKey (useMatches up options u' en)) = Some v'"
proof -
  have inj: "\<And>a b. (keyOfId a = (keyOfId b :: GetMatchesOptions KeyPart)) = (a = b)"
    by (simp add: keyOfId_def split: option.splits)
  show ?thesis
    using assms inj
    by (simp add: useMatches_def useTodayMatches_def useMatchById_def useLiveMatches_def
        useHead2Head_def)
qed

theorem C7_cache_key_has_unfold_flags_witness:
  "queryKey (useMatchById (answeringUpstream ()) (Some 327611) noUnfold True)
     \<noteq> queryKey (useMatchById (answeringUpstream ()) (Some 327611)
          (noUnfold\<lparr>unfoldGoals := Some True\<rparr>) True)
   \<and> queryKey (useMatches (answeringUpstream ()) noOptions noUnfold True)
     \<noteq> queryKey (useMatches (answeringUpstream ()) noOptions
          (noUnfold\<lparr>unfoldGoals := Some True\<rparr>) True)"
proof -
  have differ: "noUnfold \<noteq> noUnfold\<lparr>unfoldGoals := Some True\<rparr>"
    by (simp add: noUnfold_def)
  show ?thesis
    using C7_cache_key_has_unfold_flags [OF differ, of "answeringUpstream ()" noOptions True
        "Some 327611" 10 "answeringUpstream ()" noOptions noUnfold True "Some 327611" 10
        "Map.empty :: GetMatchesOptions KeyPart list \<rightharpoonup> unit" "()" "()"]
    by blast
qed

section \<open>Properties of the query configuration and of the service requests\<close>

text \<open>
  C8, as the code has it. Today's matches: stale after 2 minutes, polled every 60 seconds.
  Live matches: stale after 30 seconds, polled every 30 seconds. The competition list and
  the head-to-head history: stale after 5 minutes, with no polling interval.
\<close>

theorem C8_staleness_and_polling:
  "staleTime (useTodayMatches up u en) = Some 120000
   \<and> refetchInterval (useTodayMatches up u en) = Some 60000
   \<and> staleTime (useLiveMatches up u en) = Some 30000
   \<and> refetchInterval (useLiveMatches up u en) = Some 30000
   \<and> staleTime (useCompetitions svc copts en) = Some 300000
   \<and> refetchInterval (useCompetitions svc copts en) = None
   \<and> staleTime (useHead2Head up matchId lim u en) = Some 300000
   \<and> refetchInterval (useHead2Head up matchId lim u en) = None"
  by (simp add: useTodayMatches_def useLiveMatches_def useCompetitions_def useHead2Head_def
      matches_STALE_TIME_def matches_CACHE_TIME_def competitions_STALE_TIME_def)

text \<open>
  As stated, C8 fails for the live matches: their staleness window is 30 seconds, not
  2 minutes.
\<close>

theorem C8_live_matches_stale_after_30s:
  "staleTime (useLiveMatches (answeringUpstream ()) (noUnfold\<lparr>unfoldGoals := Some True\<rparr>) True)
     = Some 30000
   \<and> staleTime (useLiveMatches (answeringUpstream ()) (noUnfold\<lparr>unfoldGoals := Some True\<rparr>) True)
     \<noteq> Some (2 * 60 * 1000)"
  by (simp add: useLiveMatches_def)

text \<open>
  C9. \<^verbatim>\<open>getLiveMatches\<close> does what \<^verbatim>\<open>getMatches\<close> does with the options
  \<^verbatim>\<open>{ status: 'IN_PLAY' }\<close>: it sends one request, to \<^verbatim>\<open>/matches\<close>, whose only parameter
  is the status \<open>IN_PLAY\<close>, with the unfold headers. \<open>PAUSED\<close> is not requested, although
  the match card shows both \<open>IN_PLAY\<close> and \<open>PAUSED\<close> as live.
\<close>

theorem C9_live_matches_request:
  "getLiveMatches up u w = getMatches up (noOptions\<lparr>matchStatus := Some IN_PLAY\<rparr>) u w
   \<and> snd (getLiveMatches up u w) =
       w @ [\<lparr>url = [Lit ''/matches''],
              params = Some (noOptions\<lparr>matchStatus := Some IN_PLAY\<rparr>),
              headers = unfoldHeaders u\<rparr>]
   \<and> fst (getLiveMatches up u w) =
       responseInterceptor (up (length w)
         \<lparr>url = [Lit ''/matches''],
          params = Some (noOptions\<lparr>matchStatus := Some IN_PLAY\<rparr>),
          headers = unfoldHeaders u\<rparr>)
   \<and> map (\<lambda>r. map_option matchStatus (params r)) (drop (length w) (snd (getLiveMatches up u w)))
       = [Some (Some IN_PLAY)]
   \<and> Some (Some PAUSED) \<notin>
       set (map (\<lambda>r. map_option matchStatus (params r)) (drop (length w) (snd (getLiveMatches up u w))))
   \<and> isLive IN_PLAY \<and> isLive PAUSED"
  by (simp add: getLiveMatches_def getMatches_def axiosGet_def isLive_def)

text \<open>
  C10. \<^verbatim>\<open>getTodayMatches\<close> does what \<^verbatim>\<open>getMatches\<close> does with the empty options
  \<^verbatim>\<open>{}\<close>: it sends one request, to \<^verbatim>\<open>/matches\<close>, with no parameter set, so without any
  date, and with the unfold headers.
\<close>

theorem C10_today_matches_request:
  "getTodayMatches up u w = getMatches up noOptions u w
   \<and> snd (getTodayMatches up u w) =
       w @ [\<lparr>url = [Lit ''/matches''], params = Some noOptions, headers = unfoldHeaders u\<rparr>]
   \<and> fst (getTodayMatches up u w) =
       responseInterceptor (up (length w)
         \<lparr>url = [Lit ''/matches''], params = Some noOptions, headers = unfoldHeaders u\<rparr>)
   \<and> map (\<lambda>r. map_option date (params r)) (drop (length w) (snd (getTodayMatches up u w)))
       = [Some None]
   \<and> map (\<lambda>r. map_option dateFrom (params r)) (drop (length w) (snd (getTodayMatches up u w)))
       = [Some None]
   \<and> map (\<lambda>r. map_option dateTo (params r)) (drop (length w) (snd (getTodayMatches up u w)))
       = [Some None]"
  by (simp add: getTodayMatches_def getMatches_def axiosGet_def noOptions_def)

section \<open>Properties of the competition page\<close>






section \<open>Properties of the timeline merge\<close>

lemma timeline_sorted: "sorted (map minute (getTimelineEvents m))"
  by (simp add: getTimelineEvents_def)

lemma timeline_resort: "sort_key minute (getTimelineEvents m) = getTimelineEvents m"
  by (rule sort_key_id_if_sorted) (rule timeline_sorted)

lemma timeline_stable:
  "filter (\<lambda>e. minute e = k) (getTimelineEvents m) = filter (\<lambda>e. minute e = k) (pushedEvents m)"
  unfolding getTimelineEvents_def by (rule sort_key_stable)

lemma timeline_same_events: "mset (getTimelineEvents m) = mset (pushedEvents m)"
  by (simp add: getTimelineEvents_def)

text \<open>
  C4. The merge is a function of the three event lists of the match: two matches with
  the same lists have the same timeline. Sorting the timeline again changes nothing. The
  events of one effective minute stand in the timeline in the order in which they were
  pushed: goals, then bookings, then substitutions, each in the order of its list. A goal
  and a booking of the same effective minute, with no substitution, give the goal and
  then the booking.
\<close>

theorem C4_merge_deterministic_stable:
  "(goals m = goals m' \<and> bookings m = bookings m' \<and> substitutions m = substitutions m'
      \<longrightarrow> getTimelineEvents m = getTimelineEvents m')
   \<and> sort_key minute (getTimelineEvents m) = getTimelineEvents m
   \<and> filter (\<lambda>e. minute e = k) (getTimelineEvents m) =
       filter (\<lambda>e. minute e = k) (pushAll goalEvent (goals m))
       @ filter (\<lambda>e. minute e = k) (pushAll bookingEvent (bookings m))
       @ filter (\<lambda>e. minute e = k) (pushAll substitutionEvent (substitutions m))
   \<and> (goalMinute g + injuryTimeOr0 g = bookingMinute b \<longrightarrow>
        getTimelineEvents \<lparr>goals = Some [g], bookings = Some [b], substitutions = Some []\<rparr>
          = [goalEvent g, bookingEvent b])"
proof -
  have det: "getTimelineEvents m = getTimelineEvents m'"
    if "goals m = goals m' \<and> bookings m = bookings m' \<and> substitutions m = substitutions m'"
    using that by (simp add: getTimelineEvents_def pushedEvents_def)
  have stable: "filter (\<lambda>e. minute e = k) (getTimelineEvents m) =
       filter (\<lambda>e. minute e = k) (pushAll goalEvent (goals m))
       @ filter (\<lambda>e. minute e = k) (pushAll bookingEvent (bookings m))
       @ filter (\<lambda>e. minute e = k) (pushAll substitutionEvent (substitutions m))"
    using timeline_stable [of k m] by (simp add: pushedEvents_def)
  have tie: "getTimelineEvents \<lparr>goals = Some [g], bookings = Some [b], substitutions = Some []\<rparr>
          = [goalEvent g, bookingEvent b]"
    if "goalMinute g + injuryTimeOr0 g = bookingMinute b"
    using that
    by (simp add: getTimelineEvents_def pushedEvents_def pushAll_def goalEvent_def
        bookingEvent_def)
  from det timeline_resort [of m] stable tie show ?thesis by blast
qed

theorem C4_merge_deterministic_stable_witness:
  "getTimelineEvents
     \<lparr>goals = Some [\<lparr>goalMinute = 10, injuryTime = None, scorer = ''g''\<rparr>],
      bookings = Some [\<lparr>bookingMinute = 10, player = ''b'', bookingCard = YELLOW\<rparr>],
      substitutions = Some []\<rparr>
   = [goalEvent \<lparr>goalMinute = 10, injuryTime = None, scorer = ''g''\<rparr>,
      bookingEvent \<lparr>bookingMinute = 10, player = ''b'', bookingCard = YELLOW\<rparr>]"
proof -
  let ?g = "\<lparr>goalMinute = 10, injuryTime = None, scorer = ''g''\<rparr>"
  let ?b = "\<lparr>bookingMinute = 10, player = ''b'', bookingCard = YELLOW\<rparr>"
  let ?m = "\<lparr>goals = Some [?g], bookings = Some [?b], substitutions = Some []\<rparr>"
  have same: "goalMinute ?g + injuryTimeOr0 ?g = bookingMinute ?b"
    by (simp add: injuryTimeOr0_def)
  from C4_merge_deterministic_stable [of ?m ?m 10 ?g ?b] same show ?thesis by blast
qed

text \<open>
  C5. The timeline is ascending in the effective minute and holds exactly the events
  pushed. The effective minute of a goal is its minute plus its injury time, 0 when that
  is absent; a booking and a substitution keep their minute. A goal at 45 with injury
  time 2 stands after a booking at 46 and before a booking at 48.
\<close>

theorem C5_merge_ascending_by_effective_minute:
  "sorted (map minute (getTimelineEvents m))
   \<and> mset (getTimelineEvents m) = mset (pushedEvents m)
   \<and> minute (goalEvent g) = goalMinute g + (case injuryTime g of None \<Rightarrow> 0 | Some t \<Rightarrow> t)
   \<and> minute (bookingEvent b) = bookingMinute b
   \<and> minute (substitutionEvent s) = subMinute s
   \<and> getTimelineEvents
       \<lparr>goals = Some [\<lparr>goalMinute = 45, injuryTime = Some 2, scorer = sc\<rparr>],
        bookings = Some [\<lparr>bookingMinute = 46, player = p1, bookingCard = c1\<rparr>,
                         \<lparr>bookingMinute = 48, player = p2, bookingCard = c2\<rparr>],
        substitutions = None\<rparr>
     = [bookingEvent \<lparr>bookingMinute = 46, player = p1, bookingCard = c1\<rparr>,
        goalEvent \<lparr>goalMinute = 45, injuryTime = Some 2, scorer = sc\<rparr>,
        bookingEvent \<lparr>bookingMinute = 48, player = p2, bookingCard = c2\<rparr>]"
proof -
  have ex: "getTimelineEvents
       \<lparr>goals = Some [\<lparr>goalMinute = 45, injuryTime = Some 2, scorer = sc\<rparr>],
        bookings = Some [\<lparr>bookingMinute = 46, player = p1, bookingCard = c1\<rparr>,
                         \<lparr>bookingMinute = 48, player = p2, bookingCard = c2\<rparr>],
        substitutions = None\<rparr>
     = [bookingEvent \<lparr>bookingMinute = 46, player = p1, bookingCard = c1\<rparr>,
        goalEvent \<lparr>goalMinute = 45, injuryTime = Some 2, scorer = sc\<rparr>,
        bookingEvent \<lparr>bookingMinute = 48, player = p2, bookingCard = c2\<rparr>]"
    by (simp add: getTimelineEvents_def pushedEvents_def pushAll_def goalEvent_def
        bookingEvent_def injuryTimeOr0_def)
  have mins: "minute (goalEvent g) = goalMinute g + (case injuryTime g of None \<Rightarrow> 0 | Some t \<Rightarrow> t)"
    "minute (bookingEvent b) = bookingMinute b" "minute (substitutionEvent s) = subMinute s"
    by (simp_all add: goalEvent_def bookingEvent_def substitutionEvent_def injuryTimeOr0_def)
  from timeline_sorted [of m] timeline_same_events [of m] mins ex show ?thesis by blast
qed

end
